theory Spec2Isabelle
  imports Complex_Main "HOL-Library.AList"
begin

section \<open>Python strings and paths\<close>

text \<open>
  A Python \<open>str\<close> is modelled as a \<open>string\<close> whose characters are the code points
  below 256. The functions of this section are the standard-library operations the
  pipeline calls on strings and paths (\<open>str.isspace\<close>, \<open>str.strip\<close>, \<open>str.lower\<close>,
  \<open>str.replace\<close>, \<open>in\<close>, \<open>str.join\<close>, \<open>str.rfind\<close>, and the POSIX versions of
  \<open>os.path.splitext\<close>, \<open>os.path.basename\<close> and \<open>os.path.join\<close>).
\<close>

definition isspace :: "char \<Rightarrow> bool" where
  "isspace c =
     (let n = (of_char c :: nat)
      in (9 \<le> n \<and> n \<le> 13) \<or> (28 \<le> n \<and> n \<le> 32) \<or> n = 133 \<or> n = 160)"

definition strip :: "string \<Rightarrow> string" where
  "strip s = rev (dropWhile isspace (rev (dropWhile isspace s)))"

definition lower_char :: "char \<Rightarrow> char" where
  "lower_char c =
     (let n = (of_char c :: nat)
      in if (65 \<le> n \<and> n \<le> 90) \<or> (192 \<le> n \<and> n \<le> 222 \<and> n \<noteq> 215)
         then char_of (n + 32) else c)"

definition lower :: "string \<Rightarrow> string" where
  "lower s = map lower_char s"

definition replace_char :: "char \<Rightarrow> char \<Rightarrow> string \<Rightarrow> string" where
  "replace_char old new s = map (\<lambda>c. if c = old then new else c) s"

text \<open>\<open>str_in a b\<close> is Python's \<open>a in b\<close> on strings: \<open>a\<close> occurs in \<open>b\<close> as a contiguous run.\<close>

fun str_in :: "string \<Rightarrow> string \<Rightarrow> bool" where
  "str_in a [] = (a = [])"
| "str_in a (c # cs) = (take (length a) (c # cs) = a \<or> str_in a cs)"

text \<open>\<open>str_join sep xs\<close> is \<open>sep.join(xs)\<close>.\<close>

fun str_join :: "string \<Rightarrow> string list \<Rightarrow> string" where
  "str_join sep [] = []"
| "str_join sep [x] = x"
| "str_join sep (x # y # ys) = x @ sep @ str_join sep (y # ys)"

text \<open>\<open>rfind p c\<close> is \<open>p.rfind(c)\<close> for a one-character \<open>c\<close>: the highest index, or \<open>-1\<close>.\<close>

fun rfind :: "string \<Rightarrow> char \<Rightarrow> int" where
  "rfind [] c = - 1"
| "rfind (x # xs) c =
     (let r = rfind xs c in if 0 \<le> r then r + 1 else if x = c then 0 else - 1)"

text \<open>
  \<open>os.path.splitext\<close> (\<open>genericpath._splitext\<close> with separator \<open>/\<close> and extension
  separator \<open>.\<close>): the last dot after the last separator starts the extension, unless
  only dots stand between the separator and it. \<open>skip_dots\<close> is the \<open>while\<close> loop that
  skips the leading dots of the file name.
\<close>

function skip_dots :: "string \<Rightarrow> int \<Rightarrow> int \<Rightarrow> string \<times> string" where
  "skip_dots p filenameIndex dotIndex =
     (if filenameIndex < dotIndex then
        (if take 1 (drop (nat filenameIndex) p) \<noteq> ''.''
         then (take (nat dotIndex) p, drop (nat dotIndex) p)
         else skip_dots p (filenameIndex + 1) dotIndex)
      else (p, []))"
  by pat_completeness auto
termination
  by (relation "measure (\<lambda>(p, filenameIndex, dotIndex). nat (dotIndex - filenameIndex))") auto

definition splitext :: "string \<Rightarrow> string \<times> string" where
  "splitext p =
     (let sepIndex = rfind p (CHR ''/'');
          dotIndex = rfind p (CHR ''.'')
      in if sepIndex < dotIndex then skip_dots p (sepIndex + 1) dotIndex else (p, []))"

definition basename :: "string \<Rightarrow> string" where
  "basename p = drop (nat (rfind p (CHR ''/'') + 1)) p"

definition path_join :: "string \<Rightarrow> string \<Rightarrow> string" where
  "path_join a b =
     (if take 1 b = ''/'' then b
      else if a = [] \<or> last a = CHR ''/'' then a @ b
      else a @ ''/'' @ b)"

section \<open>Exceptions\<close>

text \<open>
  Every function that can raise returns a sum: \<open>Inl\<close> carries the exception. Where the
  state outlives the exception (Python objects keep what was mutated before the raise),
  the state is returned beside the result.
\<close>

datatype exn =
    ValueError string
  | KeyError string
  | ParseError
  | JSONDecodeError
  | FileNotFoundError
  | LibraryError string

section \<open>The world outside the process\<close>

text \<open>
  The file system is read in three parts, which the pipeline keeps apart: the
  documents under the root folder (\<open>os.path.exists\<close> and \<open>os.path.getmtime\<close> read
  \<open>mtimes\<close>; a path that is absent maps to \<open>None\<close>), the persisted tracker files and the
  XML output files. Modification times are real numbers. The contents of a tracker file
  and of an output file are kept abstract (\<open>'j\<close> and \<open>'x\<close>): only the libraries read
  and write them.
\<close>

record ('j, 'x) world =
  mtimes :: "string \<rightharpoonup> real"
  tracker_files :: "string \<rightharpoonup> 'j"
  xml_files :: "string \<rightharpoonup> 'x"

section \<open>XML elements (xml.etree.ElementTree.Element)\<close>

datatype element =
  Element (tag: string) (attrib: "(string \<times> string) list") (etext: "string option")
    (tail: "string option") (children: "element list")

text \<open>\<open>PdfReader\<close>: each page's \<open>extract_text()\<close> returns a string or raises; opening
  the file or walking the pages may raise after some pages were delivered.\<close>

datatype page = ExtractOk string | ExtractRaises exn

datatype pdf_read = PdfPages "page list" | PdfFails "page list" exn

text \<open>
  The third-party and standard libraries the source calls are parameters of the model:
  \<open>json.load\<close> and \<open>json.dump\<close> on the tracker file, \<open>ET.parse\<close> and
  \<open>ElementTree.write\<close> on an output file, \<open>PdfReader\<close>, \<open>docx.Document\<close> (the texts of
  the paragraphs) and \<open>str(datetime.now())\<close> as read while the file of the given path
  is handled. A write that raises tells, beside the exception, what it left in the file:
  \<open>None\<close> when the file was not touched, or the partial content written before the
  exception (both writers open the file for writing, which empties it, before they
  serialise).
\<close>

record ('j, 'x) lib =
  json_load :: "'j \<Rightarrow> exn + (string \<rightharpoonup> real)"
  json_dump :: "(string \<rightharpoonup> real) \<Rightarrow> (exn \<times> 'j option) + 'j"
  ET_parse :: "'x \<Rightarrow> exn + element"
  ET_write :: "element \<Rightarrow> (exn \<times> 'x option) + 'x"
  PdfReader :: "string \<Rightarrow> pdf_read"
  Document :: "string \<Rightarrow> exn + string list"
  now :: "string \<Rightarrow> string"

section \<open>file\_tracker.py\<close>

record FileTracker =
  tracker_file :: string
  tracked_files :: "string \<rightharpoonup> real"

definition load_tracker ::
  "('j, 'x) lib \<Rightarrow> ('j, 'x) world \<Rightarrow> string \<Rightarrow> exn + (string \<rightharpoonup> real)" where
  "load_tracker L w path =
     (case tracker_files w path of
        Some content \<Rightarrow>
          (case json_load L content of
             Inl e \<Rightarrow> Inl e
           | Inr data \<Rightarrow> Inr data)
      | None \<Rightarrow> Inr Map.empty)"

definition FileTracker_init ::
  "('j, 'x) lib \<Rightarrow> ('j, 'x) world \<Rightarrow> string \<Rightarrow> exn + FileTracker" where
  "FileTracker_init L w path =
     (case load_tracker L w path of
        Inl e \<Rightarrow> Inl e
      | Inr data \<Rightarrow> Inr \<lparr>tracker_file = path, tracked_files = data\<rparr>)"

definition save_tracker ::
  "('j, 'x) lib \<Rightarrow> FileTracker \<Rightarrow> ('j, 'x) world \<Rightarrow> (exn + unit) \<times> ('j, 'x) world" where
  "save_tracker L ft w =
     (case json_dump L (tracked_files ft) of
        Inr content \<Rightarrow>
          (Inr (), w\<lparr>tracker_files := (tracker_files w)(tracker_file ft \<mapsto> content)\<rparr>)
      | Inl (e, None) \<Rightarrow> (Inl e, w)
      | Inl (e, Some partial) \<Rightarrow>
          (Inl e, w\<lparr>tracker_files := (tracker_files w)(tracker_file ft \<mapsto> partial)\<rparr>))"

definition needs_update :: "('j, 'x) world \<Rightarrow> FileTracker \<Rightarrow> string \<Rightarrow> bool" where
  "needs_update w ft file_path =
     (case mtimes w file_path of
        None \<Rightarrow> False
      | Some current_mtime \<Rightarrow>
          (let last_processed =
                 (case tracked_files ft file_path of None \<Rightarrow> 0 | Some t \<Rightarrow> t)
           in last_processed < current_mtime))"

definition update_file_timestamp ::
  "('j, 'x) lib \<Rightarrow> FileTracker \<Rightarrow> ('j, 'x) world \<Rightarrow> string
     \<Rightarrow> (exn + unit) \<times> FileTracker \<times> ('j, 'x) world" where
  "update_file_timestamp L ft w file_path =
     (case mtimes w file_path of
        None \<Rightarrow> (Inl FileNotFoundError, ft, w)
      | Some m \<Rightarrow>
          (let ft' = ft\<lparr>tracked_files := (tracked_files ft)(file_path \<mapsto> m)\<rparr>
           in case save_tracker L ft' w of (result, w') \<Rightarrow> (result, ft', w')))"

definition remove_file ::
  "('j, 'x) lib \<Rightarrow> FileTracker \<Rightarrow> ('j, 'x) world \<Rightarrow> string
     \<Rightarrow> (exn + unit) \<times> FileTracker \<times> ('j, 'x) world" where
  "remove_file L ft w file_path =
     (if file_path \<in> dom (tracked_files ft) then
        (let ft' = ft\<lparr>tracked_files := (tracked_files ft)(file_path := None)\<rparr>
         in case save_tracker L ft' w of (result, w') \<Rightarrow> (result, ft', w'))
      else (Inr (), ft, w))"

section \<open>xml\_handler.py\<close>

text \<open>
  The configuration (\<open>config.yaml\<close>), with one field per key the source reads:
  \<open>config['paths']['root_folder']\<close> is \<open>paths_root_folder\<close>, and so on.
\<close>

record Config =
  paths_root_folder :: string
  paths_output_folder :: string
  file_types_documents :: "string list"
  file_types_ignore :: "string list"
  folders_external :: string
  folders_internal :: string
  folders_client :: string
  xml_external_file :: string
  xml_internal_file :: string
  xml_client_file :: string

text \<open>
  The two dictionaries of the handler are association lists in insertion order, which
  is the order Python iterates them in; \<open>AList.update\<close> replaces a value in place, as an
  assignment to an existing key does.
\<close>

record XMLHandler =
  output_dir :: string
  category_files :: "(string \<times> string) list"
  roots :: "(string \<times> element) list"

definition new_Element :: "string \<Rightarrow> element" where
  "new_Element t = Element t [] None None []"

definition elem_set :: "element \<Rightarrow> string \<Rightarrow> string \<Rightarrow> element" where
  "elem_set e key v =
     (case e of Element tg ats tx tal cs \<Rightarrow> Element tg (AList.update key v ats) tx tal cs)"

definition elem_get :: "element \<Rightarrow> string \<Rightarrow> string option" where
  "elem_get e key = map_of (attrib e) key"

definition elem_set_text :: "element \<Rightarrow> string option \<Rightarrow> element" where
  "elem_set_text e t = (case e of Element tg ats tx tal cs \<Rightarrow> Element tg ats t tal cs)"

definition elem_append :: "element \<Rightarrow> element \<Rightarrow> element" where
  "elem_append e sub = (case e of Element tg ats tx tal cs \<Rightarrow> Element tg ats tx tal (cs @ [sub]))"

text \<open>The elements below an element, in document order (the element itself left out).\<close>

fun descendants :: "element \<Rightarrow> element list" where
  "descendants (Element tg ats tx tal cs) = concat (map (\<lambda>c. c # descendants c) cs)"

text \<open>\<open>root.findall(".//entry[@filename]")\<close>\<close>

definition findall_entry_filename :: "element \<Rightarrow> element list" where
  "findall_entry_filename root_elem =
     filter (\<lambda>e. tag e = ''entry'' \<and> elem_get e ''filename'' \<noteq> None) (descendants root_elem)"

fun load_existing_files ::
  "('j, 'x) lib \<Rightarrow> ('j, 'x) world \<Rightarrow> string \<Rightarrow> (string \<times> string) list
     \<Rightarrow> (string \<times> element) list \<Rightarrow> exn + (string \<times> element) list" where
  "load_existing_files L w out [] rts = Inr rts"
| "load_existing_files L w out ((category, filename) # rest) rts =
     (let file_path = path_join out filename
      in case xml_files w file_path of
           Some content \<Rightarrow>
             (case ET_parse L content of
                Inr root_elem \<Rightarrow> load_existing_files L w out rest (AList.update category root_elem rts)
              | Inl e \<Rightarrow>
                  if e = ParseError then load_existing_files L w out rest rts else Inl e)
         | None \<Rightarrow> load_existing_files L w out rest rts)"

definition XMLHandler_init ::
  "('j, 'x) lib \<Rightarrow> ('j, 'x) world \<Rightarrow> string \<Rightarrow> Config \<Rightarrow> exn + XMLHandler" where
  "XMLHandler_init L w out cfg =
     (let files = [(''external'', xml_external_file cfg),
                   (''internal'', xml_internal_file cfg),
                   (''client'', xml_client_file cfg)];
          rts = [(''external'', new_Element ''Root''),
                 (''internal'', new_Element ''Root''),
                 (''client'', new_Element ''Root'')]
      in case load_existing_files L w out files rts of
           Inl e \<Rightarrow> Inl e
         | Inr rts' \<Rightarrow> Inr \<lparr>output_dir = out, category_files = files, roots = rts'\<rparr>)"

definition entry_exists :: "XMLHandler \<Rightarrow> string \<Rightarrow> string \<Rightarrow> exn + bool" where
  "entry_exists h category filename =
     (case map_of (roots h) category of
        None \<Rightarrow> Inl (KeyError category)
      | Some root_elem \<Rightarrow>
          Inr (list_ex (\<lambda>entry. elem_get entry ''filename'' = Some filename)
                 (findall_entry_filename root_elem)))"

text \<open>
  The entries that \<open>_entry_exists\<close> compares with the file name: the \<open>entry\<close> elements
  below the root whose \<open>filename\<close> attribute is the given name.
\<close>

definition entries_with_filename :: "element \<Rightarrow> string \<Rightarrow> element list" where
  "entries_with_filename root_elem filename =
     filter (\<lambda>entry. elem_get entry ''filename'' = Some filename)
       (findall_entry_filename root_elem)"

text \<open>
  \<open>add_entry\<close>: the metadata is \<open>None\<close> or a dictionary, given as its items in order;
  its values are strings, on which \<open>str\<close> is the identity.
\<close>

definition add_entry ::
  "XMLHandler \<Rightarrow> string \<Rightarrow> string \<Rightarrow> string \<Rightarrow> (string \<times> string) list option
     \<Rightarrow> (exn + unit) \<times> XMLHandler" where
  "add_entry h category filename text metadata =
     (if map_of (roots h) category = None
      then (Inl (ValueError (''Invalid category: '' @ category)), h)
      else
        (case entry_exists h category filename of
           Inl e \<Rightarrow> (Inl e, h)
         | Inr True \<Rightarrow> (Inr (), h)
         | Inr False \<Rightarrow>
             (let entry = new_Element ''entry'';
                  entry = elem_set entry ''filename'' filename;
                  entry = (case metadata of
                             None \<Rightarrow> entry
                           | Some items \<Rightarrow> fold (\<lambda>(key, v) e. elem_set e key v) items entry);
                  entry = elem_set_text entry (Some text)
              in case map_of (roots h) category of
                   None \<Rightarrow> (Inl (KeyError category), h)
                 | Some root_elem \<Rightarrow>
                     (Inr (),
                      h\<lparr>roots := AList.update category (elem_append root_elem entry) (roots h)\<rparr>))))"

text \<open>The entry that \<open>add_entry\<close> builds and appends: the \<open>filename\<close> attribute is set first,
  then each metadata item in order, then the text.\<close>

definition built_entry :: "string \<Rightarrow> string \<Rightarrow> (string \<times> string) list option \<Rightarrow> element" where
  "built_entry filename text metadata =
     Element ''entry''
       (fold (\<lambda>(key, v). AList.update key v) (case metadata of None \<Rightarrow> [] | Some items \<Rightarrow> items)
          [(''filename'', filename)])
       (Some text) None []"







section \<open>document\_processor.py\<close>

definition supported_extensions :: "string set" where
  "supported_extensions = {''.pdf'', ''.docx''}"

text \<open>The loop over the pages: a page that raises is skipped, an empty text is left out.\<close>

fun page_texts :: "page list \<Rightarrow> string list" where
  "page_texts [] = []"
| "page_texts (ExtractOk extracted_text # ps) =
     (if extracted_text \<noteq> [] then extracted_text # page_texts ps else page_texts ps)"
| "page_texts (ExtractRaises e # ps) = page_texts ps"

definition extract_from_pdf :: "('j, 'x) lib \<Rightarrow> string \<Rightarrow> exn + string" where
  "extract_from_pdf L file_path =
     (case PdfReader L file_path of
        PdfFails ps e \<Rightarrow> Inr []
      | PdfPages ps \<Rightarrow>
          (let text = page_texts ps
           in Inr (if text \<noteq> [] then str_join [CHR 0x0A] text else [])))"

definition extract_from_docx :: "('j, 'x) lib \<Rightarrow> string \<Rightarrow> exn + string" where
  "extract_from_docx L file_path =
     (case Document L file_path of
        Inl e \<Rightarrow> Inr []
      | Inr paragraphs \<Rightarrow>
          Inr (str_join [CHR 0x0A] (filter (\<lambda>p. strip p \<noteq> []) paragraphs)))"

text \<open>
  \<open>extract_text\<close> returns a string, or Python's \<open>None\<close> where neither branch of the
  \<open>if\<close>/\<open>elif\<close> is taken (the result \<open>Inr None\<close>).
\<close>

definition extract_text :: "('j, 'x) lib \<Rightarrow> string \<Rightarrow> exn + string option" where
  "extract_text L file_path =
     (let extension = lower (snd (splitext file_path))
      in if extension \<notin> supported_extensions
         then Inl (ValueError (''Unsupported file type: '' @ extension))
         else if extension = ''.pdf'' then
           (case extract_from_pdf L file_path of
              Inl e \<Rightarrow> Inr (Some [])
            | Inr s \<Rightarrow> Inr (Some s))
         else if extension = ''.docx'' then
           (case extract_from_docx L file_path of
              Inl e \<Rightarrow> Inr (Some [])
            | Inr s \<Rightarrow> Inr (Some s))
         else Inr None)"

section \<open>main.py\<close>

record DocumentProcessingPipeline =
  config :: Config
  xml_handler :: XMLHandler
  file_tracker :: FileTracker
  document_extensions :: "string set"
  ignore_extensions :: "string set"

text \<open>
  The constructor of the pipeline. The configuration is given as \<open>yaml.safe_load\<close>
  returned it; creating the output folder changes nothing the model reads. The handler
  is constructed first, then the tracker with its default file name, and an exception
  of either ends the construction.
\<close>

definition Pipeline_init ::
  "('j, 'x) lib \<Rightarrow> ('j, 'x) world \<Rightarrow> Config \<Rightarrow> exn + DocumentProcessingPipeline" where
  "Pipeline_init L w cfg =
     (case XMLHandler_init L w (paths_output_folder cfg) cfg of
        Inl e \<Rightarrow> Inl e
      | Inr h \<Rightarrow>
          (case FileTracker_init L w ''file_tracker.json'' of
             Inl e \<Rightarrow> Inl e
           | Inr ft \<Rightarrow>
               Inr \<lparr>config = cfg, xml_handler = h, file_tracker = ft,
                    document_extensions = set (file_types_documents cfg),
                    ignore_extensions = set (file_types_ignore cfg)\<rparr>))"

definition determine_category :: "Config \<Rightarrow> string \<Rightarrow> string option" where
  "determine_category cfg subdir0 =
     (let subdir = lower (replace_char (CHR 0x5C) (CHR ''/'') subdir0);
          external = lower (folders_external cfg);
          internal = lower (folders_internal cfg);
          client = lower (folders_client cfg)
      in if str_in external subdir then Some ''external''
         else if str_in internal subdir then Some ''internal''
         else if str_in client subdir then Some ''client''
         else None)"

text \<open>
  \<open>_process_file\<close> returns the outcome with the pipeline and the world as it leaves
  them. Every exception raised inside its \<open>try\<close> block ends in the outcome \<open>error\<close>;
  what was mutated before the exception stays mutated.
\<close>

definition process_file ::
  "('j, 'x) lib \<Rightarrow> DocumentProcessingPipeline \<Rightarrow> ('j, 'x) world \<Rightarrow> string \<Rightarrow> string
     \<Rightarrow> string \<times> DocumentProcessingPipeline \<times> ('j, 'x) world" where
  "process_file L p w file_path subdir =
     (let extension = lower (snd (splitext file_path))
      in if extension \<in> ignore_extensions p then (''skipped'', p, w)
         else if extension \<notin> document_extensions p then (''skipped'', p, w)
         else if \<not> needs_update w (file_tracker p) file_path then (''skipped'', p, w)
         else
           (case determine_category (config p) subdir of
              None \<Rightarrow> (''skipped'', p, w)
            | Some category \<Rightarrow>
                (case extract_text L file_path of
                   Inl e \<Rightarrow> (''error'', p, w)
                 | Inr None \<Rightarrow> (''error'', p, w)
                 | Inr (Some text) \<Rightarrow>
                     if strip text = [] then (''error'', p, w)
                     else
                       (case add_entry (xml_handler p) category (basename file_path) text
                               (Some [(''processed_date'', now L file_path)]) of
                          (Inl e, h) \<Rightarrow> (''error'', p\<lparr>xml_handler := h\<rparr>, w)
                        | (Inr u, h) \<Rightarrow>
                            (case update_file_timestamp L (file_tracker p) w file_path of
                               (Inl e, ft, w') \<Rightarrow>
                                 (''error'', p\<lparr>xml_handler := h, file_tracker := ft\<rparr>, w')
                             | (Inr u', ft, w') \<Rightarrow>
                                 (''processed'',
                                  p\<lparr>xml_handler := h, file_tracker := ft\<rparr>, w'))))))"





section \<open>The category match in the spec's words\<close>

text \<open>
  The spec states the match without naming the string operations of the code: the
  folder name occurs in the path case-insensitively, with the path separators
  normalised. These definitions follow those words, for comparison with
  \<open>determine_category\<close>. A capital is one of A to Z or of the Latin-1 capitals; its small
  letter is 32 code points further. Two characters are the same up to case when they are
  equal or one is the capital of the other. A character of the path matches a character
  of the folder name when they are the same up to case, a backslash of the path counting
  as \<open>/\<close>.
\<close>

definition is_capital :: "nat \<Rightarrow> bool" where
  "is_capital n = ((65 \<le> n \<and> n \<le> 90) \<or> (192 \<le> n \<and> n \<le> 222 \<and> n \<noteq> 215))"

definition capital_of :: "char \<Rightarrow> char \<Rightarrow> bool" where
  "capital_of u l = (is_capital (of_char u) \<and> (of_char l :: nat) = of_char u + 32)"

definition same_up_to_case :: "char \<Rightarrow> char \<Rightarrow> bool" where
  "same_up_to_case c d = (c = d \<or> capital_of c d \<or> capital_of d c)"

definition path_char_matches :: "char \<Rightarrow> char \<Rightarrow> bool" where
  "path_char_matches p f = same_up_to_case (if p = CHR 0x5C then CHR ''/'' else p) f"

section \<open>Growth of the category documents\<close>


section \<open>What ElementTree writes and reads back\<close>














section \<open>Concrete inputs\<close>

text \<open>
  One configuration, one set of libraries and one file system, on which the theorems
  below are evaluated. The tracker file's content is the mapping it encodes (or \<open>None\<close>
  for text that is not JSON); an output file's content is the tree it encodes (or
  \<open>None\<close> for text that is not XML). The sample libraries write and read these without
  loss.
\<close>

definition sample_config :: Config where
  "sample_config =
     \<lparr>paths_root_folder = ''/docs'', paths_output_folder = ''/out'',
      file_types_documents = [''.pdf'', ''.docx''], file_types_ignore = [''.tmp''],
      folders_external = ''External'', folders_internal = ''Internal'',
      folders_client = ''Client'',
      xml_external_file = ''external.xml'', xml_internal_file = ''internal.xml'',
      xml_client_file = ''client.xml''\<rparr>"

definition sample_lib :: "((string \<rightharpoonup> real) option, element option) lib" where
  "sample_lib =
     \<lparr>json_load = (\<lambda>content. case content of None \<Rightarrow> Inl JSONDecodeError | Some m \<Rightarrow> Inr m),
      json_dump = (\<lambda>m. Inr (Some m)),
      ET_parse = (\<lambda>content. case content of None \<Rightarrow> Inl ParseError | Some e \<Rightarrow> Inr e),
      ET_write = (\<lambda>e. Inr (Some e)),
      PdfReader = (\<lambda>path.
         if path = ''/docs/external/report.pdf'' then PdfPages [ExtractOk ''Quarterly report'']
         else if path = ''/docs/client/scan.pdf'' then PdfPages [ExtractOk ''  '']
         else PdfFails [] (LibraryError ''cannot open'')),
      Document = (\<lambda>path. Inl (LibraryError ''cannot open'')),
      now = (\<lambda>path. ''2024-05-01 10:00:00'')\<rparr>"

definition sample_world :: "((string \<rightharpoonup> real) option, element option) world" where
  "sample_world =
     \<lparr>mtimes = [''/docs/external/report.pdf'' \<mapsto> 100, ''/docs/client/scan.pdf'' \<mapsto> 50],
      tracker_files = Map.empty,
      xml_files = Map.empty\<rparr>"

definition sample_pipeline :: DocumentProcessingPipeline where
  "sample_pipeline =
     \<lparr>config = sample_config,
      xml_handler =
        \<lparr>output_dir = ''/out'',
         category_files = [(''external'', ''external.xml''), (''internal'', ''internal.xml''),
                           (''client'', ''client.xml'')],
         roots = [(''external'', new_Element ''Root''), (''internal'', new_Element ''Root''),
                  (''client'', new_Element ''Root'')]\<rparr>,
      file_tracker = \<lparr>tracker_file = ''file_tracker.json'', tracked_files = Map.empty\<rparr>,
      document_extensions = {''.pdf'', ''.docx''},
      ignore_extensions = {''.tmp''}\<rparr>"

definition sample_entry :: "string \<Rightarrow> string \<Rightarrow> element" where
  "sample_entry filename text =
     Element ''entry'' [(''filename'', filename), (''processed_date'', ''2024-05-01 10:00:00'')]
       (Some text) None []"












definition windows_dir :: string where
  "windows_dir = ''C:'' @ [CHR 0x5C] @ ''Docs'' @ [CHR 0x5C] @ ''EXTERNAL'' @ [CHR 0x5C] @ ''client''"

section \<open>Evaluating the concrete inputs\<close>

lemma sample_pipeline_init: "Pipeline_init sample_lib sample_world sample_config = Inr sample_pipeline"
  by (simp add: Pipeline_init_def XMLHandler_init_def FileTracker_init_def load_tracker_def
      sample_world_def sample_config_def sample_pipeline_def path_join_def)

lemma ext_tmp: "lower (snd (splitext ''/docs/external/notes.tmp'')) = ''.tmp''" by code_simp
lemma ext_scan: "lower (snd (splitext ''/docs/client/scan.pdf'')) = ''.pdf''" by code_simp
lemma ext_report: "lower (snd (splitext ''/docs/external/report.pdf'')) = ''.pdf''" by code_simp

section \<open>Change tracker\<close>

text \<open>
  C3. \<open>needs_update\<close> returns false for a path that does not exist on disk; for a path
  that exists it returns true exactly when the file's modification time is strictly
  greater than the recorded value, where a path absent from the tracked mapping counts
  as recorded at 0. A modification time equal to the recorded value is not due.
\<close>

theorem needs_update_spec:
  "(mtimes w path = None \<longrightarrow> \<not> needs_update w ft path) \<and>
   (\<forall>m. mtimes w path = Some m \<longrightarrow>
      (needs_update w ft path \<longleftrightarrow>
         (case tracked_files ft path of None \<Rightarrow> 0 | Some t \<Rightarrow> t) < m)) \<and>
   (\<forall>m. mtimes w path = Some m \<and> tracked_files ft path = Some m \<longrightarrow>
      \<not> needs_update w ft path)"
  by (simp add: needs_update_def)

theorem needs_update_spec_witness:
  "needs_update sample_world (file_tracker sample_pipeline) ''/docs/external/report.pdf'' \<and>
   \<not> needs_update sample_world (file_tracker sample_pipeline) ''/docs/missing.pdf'' \<and>
   \<not> needs_update sample_world
        \<lparr>tracker_file = ''file_tracker.json'',
         tracked_files = [''/docs/external/report.pdf'' \<mapsto> 100]\<rparr>
        ''/docs/external/report.pdf''"
  using needs_update_spec [of sample_world "''/docs/external/report.pdf''" "file_tracker sample_pipeline"]
    needs_update_spec [of sample_world "''/docs/missing.pdf''" "file_tracker sample_pipeline"]
    needs_update_spec [of sample_world "''/docs/external/report.pdf''"
      "\<lparr>tracker_file = ''file_tracker.json'',
         tracked_files = [''/docs/external/report.pdf'' \<mapsto> 100]\<rparr>"]
  by (simp add: sample_world_def sample_pipeline_def)




section \<open>Text extraction\<close>

text \<open>
  C10, as amended. For a path whose lowercased extension is \<open>.pdf\<close> or \<open>.docx\<close>,
  \<open>extract_text\<close> never raises. It raises exactly when the extension is outside that
  set, and then the error is the \<open>ValueError\<close> naming the extension. When the PDF cannot
  be opened or its pages cannot be walked, or the DOCX cannot be opened, the result is
  the empty string. A PDF page whose own extraction fails is skipped: the result is the
  text of the other pages, joined by newlines.
\<close>

theorem extract_text_spec:
  "(lower (snd (splitext file_path)) \<in> {''.pdf'', ''.docx''} \<longrightarrow>
      (\<exists>s. extract_text L file_path = Inr (Some s))) \<and>
   ((\<exists>e. extract_text L file_path = Inl e) \<longleftrightarrow>
      lower (snd (splitext file_path)) \<notin> {''.pdf'', ''.docx''}) \<and>
   (\<forall>e. extract_text L file_path = Inl e \<longrightarrow>
      e = ValueError (''Unsupported file type: '' @ lower (snd (splitext file_path)))) \<and>
   (\<forall>ps e. lower (snd (splitext file_path)) = ''.pdf'' \<and> PdfReader L file_path = PdfFails ps e \<longrightarrow>
      extract_text L file_path = Inr (Some [])) \<and>
   (\<forall>e. lower (snd (splitext file_path)) = ''.docx'' \<and> Document L file_path = Inl e \<longrightarrow>
      extract_text L file_path = Inr (Some [])) \<and>
   (\<forall>ps. lower (snd (splitext file_path)) = ''.pdf'' \<and> PdfReader L file_path = PdfPages ps \<longrightarrow>
      extract_text L file_path = Inr (Some (str_join [CHR 0x0A] (page_texts ps))))"
  by (auto simp add: extract_text_def extract_from_pdf_def extract_from_docx_def
        supported_extensions_def Let_def split: sum.splits pdf_read.splits)

lemma ext_txt: "lower (snd (splitext ''/docs/external/readme.txt'')) = ''.txt''" by code_simp
lemma ext_docx: "lower (snd (splitext ''/docs/internal/Notes.DOCX'')) = ''.docx''" by code_simp
lemma ext_broken: "lower (snd (splitext ''/docs/external/broken.pdf'')) = ''.pdf''" by code_simp

theorem extract_text_spec_witness:
  "extract_text sample_lib ''/docs/external/report.pdf'' = Inr (Some ''Quarterly report'') \<and>
   extract_text sample_lib ''/docs/external/broken.pdf'' = Inr (Some []) \<and>
   extract_text sample_lib ''/docs/internal/Notes.DOCX'' = Inr (Some []) \<and>
   extract_text sample_lib ''/docs/external/readme.txt'' =
     Inl (ValueError ''Unsupported file type: .txt'')"
proof -
  have unsupported: "\<exists>e. extract_text sample_lib ''/docs/external/readme.txt'' = Inl e"
    using extract_text_spec [of "''/docs/external/readme.txt''" sample_lib]
    by (simp add: ext_txt)
  show ?thesis
    using extract_text_spec [of "''/docs/external/report.pdf''" sample_lib]
      extract_text_spec [of "''/docs/external/broken.pdf''" sample_lib]
      extract_text_spec [of "''/docs/internal/Notes.DOCX''" sample_lib]
      extract_text_spec [of "''/docs/external/readme.txt''" sample_lib] unsupported
    by (auto simp add: ext_txt ext_docx ext_broken ext_report sample_lib_def)
qed

text \<open>
  The claim as stated says that any internal read or parse failure gives the empty
  string. A PDF whose first page fails and whose second page holds text gives that text.
\<close>

theorem extract_text_page_failure_counterexample:
  "extract_text (sample_lib\<lparr>PdfReader := \<lambda>path. PdfPages [ExtractRaises (LibraryError ''bad page''),
       ExtractOk ''page two'']\<rparr>) ''/docs/external/report.pdf'' = Inr (Some ''page two'')"
  by (simp add: extract_text_def ext_report supported_extensions_def extract_from_pdf_def)

section \<open>Classification and per-file handling\<close>

lemma str_in_iff: "str_in a b \<longleftrightarrow> (\<exists>before after. b = before @ a @ after)"
proof (induction b)
  case Nil
  then show ?case by auto
next
  case (Cons c cs)
  show ?case
  proof
    assume "str_in a (c # cs)"
    then consider "take (length a) (c # cs) = a" | "str_in a cs" by auto
    then show "\<exists>before after. c # cs = before @ a @ after"
    proof cases
      case 1
      then have "c # cs = [] @ a @ drop (length a) (c # cs)"
        by (metis append_Nil append_take_drop_id)
      then show ?thesis by blast
    next
      case 2
      then obtain before after where "cs = before @ a @ after" using Cons.IH by blast
      then have "c # cs = (c # before) @ a @ after" by simp
      then show ?thesis by blast
    qed
  next
    assume "\<exists>before after. c # cs = before @ a @ after"
    then obtain before after where eq: "c # cs = before @ a @ after" by blast
    show "str_in a (c # cs)"
    proof (cases before)
      case Nil
      then have "take (length a) (c # cs) = a" using eq by simp
      then show ?thesis by simp
    next
      case (Cons d ds)
      then have "cs = ds @ a @ after" using eq by simp
      then have "str_in a cs" using Cons.IH by blast
      then show ?thesis by simp
    qed
  qed
qed

lemma cat_client: "determine_category sample_config ''/docs/client'' = Some ''client''"
  by code_simp

lemma cat_unsorted: "determine_category sample_config ''/docs/unsorted'' = None"
  by code_simp

lemma extract_scan: "extract_text sample_lib ''/docs/client/scan.pdf'' = Inr (Some ''  '')"
  by (simp add: extract_text_def ext_scan supported_extensions_def extract_from_pdf_def
      sample_lib_def)

lemma strip_blank: "strip ''  '' = []"
  by code_simp

lemma of_char_lower_char:
  "(of_char (lower_char c) :: nat) =
     (if is_capital (of_char c) then of_char c + 32 else of_char c)"
proof (cases "is_capital (of_char c)")
  case True
  then have "(of_char c :: nat) + 32 < 256"
    by (auto simp add: is_capital_def)
  then have "(of_char (char_of ((of_char c :: nat) + 32)) :: nat) = of_char c + 32"
    by (simp only: of_char_of mod_less)
  then show ?thesis
    using True unfolding lower_char_def Let_def is_capital_def by (simp only: if_True)
next
  case False
  then show ?thesis
    unfolding lower_char_def Let_def is_capital_def by (simp only: if_False)
qed

lemma lower_char_eq_iff: "lower_char c = lower_char d \<longleftrightarrow> same_up_to_case c d"
proof -
  define m where "m = (of_char c :: nat)"
  define n where "n = (of_char d :: nat)"
  have cd: "c = d \<longleftrightarrow> m = n"
    unfolding m_def n_def by simp
  have "lower_char c = lower_char d \<longleftrightarrow>
        (of_char (lower_char c) :: nat) = of_char (lower_char d)"
    by simp
  also have "\<dots> \<longleftrightarrow>
        (if is_capital m then m + 32 else m) = (if is_capital n then n + 32 else n)"
    unfolding of_char_lower_char m_def n_def ..
  also have "\<dots> \<longleftrightarrow> (m = n \<or> (is_capital m \<and> n = m + 32) \<or> (is_capital n \<and> m = n + 32))"
    unfolding is_capital_def by presburger
  also have "\<dots> \<longleftrightarrow> same_up_to_case c d"
    unfolding same_up_to_case_def capital_of_def cd m_def n_def ..
  finally show ?thesis .
qed

lemma normalised_char_eq_iff:
  "lower_char (if p = CHR 0x5C then CHR ''/'' else p) = lower_char f \<longleftrightarrow> path_char_matches p f"
  by (simp only: lower_char_eq_iff path_char_matches_def)

lemma map_eq_map_iff: "map f xs = map g ys \<longleftrightarrow> list_all2 (\<lambda>x y. f x = g y) xs ys"
proof (induction xs arbitrary: ys)
  case Nil
  then show ?case by simp
next
  case (Cons x xs)
  then show ?case by (cases ys) simp_all
qed

lemma normalised_eq_iff:
  "lower (replace_char (CHR 0x5C) (CHR ''/'') mid) = lower folder \<longleftrightarrow>
   list_all2 path_char_matches mid folder"
proof -
  have "lower (replace_char (CHR 0x5C) (CHR ''/'') mid) =
        map (\<lambda>p. lower_char (if p = CHR 0x5C then CHR ''/'' else p)) mid"
    by (simp add: lower_def replace_char_def)
  then have "lower (replace_char (CHR 0x5C) (CHR ''/'') mid) = lower folder \<longleftrightarrow>
        map (\<lambda>p. lower_char (if p = CHR 0x5C then CHR ''/'' else p)) mid = map lower_char folder"
    by (simp add: lower_def)
  also have "\<dots> \<longleftrightarrow>
        list_all2 (\<lambda>p f. lower_char (if p = CHR 0x5C then CHR ''/'' else p) = lower_char f) mid folder"
    by (rule map_eq_map_iff)
  also have "\<dots> \<longleftrightarrow> list_all2 path_char_matches mid folder"
    by (simp only: normalised_char_eq_iff)
  finally show ?thesis .
qed

lemma normalised_append:
  "lower (replace_char (CHR 0x5C) (CHR ''/'') (xs @ ys)) =
   lower (replace_char (CHR 0x5C) (CHR ''/'') xs) @ lower (replace_char (CHR 0x5C) (CHR ''/'') ys)"
  by (simp add: lower_def replace_char_def)

lemma folder_occurs_iff:
  "str_in (lower folder) (lower (replace_char (CHR 0x5C) (CHR ''/'') subdir)) \<longleftrightarrow>
   (\<exists>before mid after. subdir = before @ mid @ after \<and> list_all2 path_char_matches mid folder)"
proof
  assume "str_in (lower folder) (lower (replace_char (CHR 0x5C) (CHR ''/'') subdir))"
  then obtain B A where
    eq: "lower (replace_char (CHR 0x5C) (CHR ''/'') subdir) = B @ lower folder @ A"
    using str_in_iff by blast
  let ?f = "\<lambda>p. lower_char (if p = CHR 0x5C then CHR ''/'' else p)"
  have m: "lower (replace_char (CHR 0x5C) (CHR ''/'') xs) = map ?f xs" for xs
    by (simp add: lower_def replace_char_def)
  from eq have "map ?f subdir = B @ lower folder @ A"
    by (simp only: m)
  then obtain before rest where s1: "subdir = before @ rest"
    and r: "lower folder @ A = map ?f rest"
    by (auto simp add: map_eq_append_conv)
  from r have "map ?f rest = lower folder @ A"
    by (rule sym)
  then obtain mid after where s2: "rest = mid @ after" and mm: "lower folder = map ?f mid"
    by (auto simp add: map_eq_append_conv)
  from mm have "lower (replace_char (CHR 0x5C) (CHR ''/'') mid) = lower folder"
    by (simp only: m)
  then have "list_all2 path_char_matches mid folder"
    by (simp only: normalised_eq_iff)
  with s1 s2 show "\<exists>before mid after. subdir = before @ mid @ after \<and>
      list_all2 path_char_matches mid folder"
    by blast
next
  assume "\<exists>before mid after. subdir = before @ mid @ after \<and>
      list_all2 path_char_matches mid folder"
  then obtain before mid after where s: "subdir = before @ mid @ after"
    and m: "list_all2 path_char_matches mid folder"
    by blast
  from m have "lower (replace_char (CHR 0x5C) (CHR ''/'') mid) = lower folder"
    by (simp only: normalised_eq_iff)
  then have "lower (replace_char (CHR 0x5C) (CHR ''/'') subdir) =
      lower (replace_char (CHR 0x5C) (CHR ''/'') before) @ lower folder @
      lower (replace_char (CHR 0x5C) (CHR ''/'') after)"
    unfolding s by (simp only: normalised_append)
  then show "str_in (lower folder) (lower (replace_char (CHR 0x5C) (CHR ''/'') subdir))"
    using str_in_iff by blast
qed

lemma cat_windows: "determine_category sample_config windows_dir = Some ''external''"
  by code_simp

lemma cat_slash:
  "determine_category (sample_config\<lparr>folders_external := ''docs/external''\<rparr>) windows_dir =
     Some ''external''"
  by code_simp

lemma matches_windows:
  "list_all2 path_char_matches (''Docs'' @ [CHR 0x5C] @ ''EXTERNAL'') ''docs/external''"
  by code_simp

text \<open>
  C5. The category is the first of external, internal, client, in that order, whose
  configured folder name occurs in the containing directory as a contiguous run of
  characters, compared case-insensitively and with a backslash of the directory counting
  as \<open>/\<close>; when a directory matches more than one folder name, the earlier category in
  that order is chosen. When no folder name occurs, the outcome of the file is
  \<open>skipped\<close>, and nothing changes.
\<close>

theorem determine_category_first_match:
  "determine_category cfg subdir =
     map_option fst
       (find (\<lambda>(category, folder).
                \<exists>before mid after.
                  subdir = before @ mid @ after \<and> list_all2 path_char_matches mid folder)
          [(''external'', folders_external cfg),
           (''internal'', folders_internal cfg),
           (''client'', folders_client cfg)]) \<and>
   (determine_category (config p) subdir = None \<longrightarrow>
      process_file L p w file_path subdir = (''skipped'', p, w))"
  by (simp add: determine_category_def process_file_def folder_occurs_iff Let_def)

theorem determine_category_first_match_witness:
  "determine_category sample_config windows_dir = Some ''external'' \<and>
   determine_category (sample_config\<lparr>folders_external := ''docs/external''\<rparr>) windows_dir =
     Some ''external'' \<and>
   list_all2 path_char_matches (''Docs'' @ [CHR 0x5C] @ ''EXTERNAL'') ''docs/external'' \<and>
   find (\<lambda>(category, folder).
           \<exists>before mid after.
             windows_dir = before @ mid @ after \<and> list_all2 path_char_matches mid folder)
     [(''external'', ''External''), (''internal'', ''Internal''), (''client'', ''Client'')] \<noteq> None \<and>
   determine_category (config sample_pipeline) ''/docs/unsorted'' = None \<and>
   process_file sample_lib sample_pipeline sample_world ''/docs/unsorted/memo.pdf''
     ''/docs/unsorted'' = (''skipped'', sample_pipeline, sample_world)"
proof -
  let ?P = "\<lambda>(category, folder).
              \<exists>before mid after.
                windows_dir = before @ mid @ after \<and> list_all2 path_char_matches mid folder"
  let ?xs = "[(''external'', ''External''), (''internal'', ''Internal''), (''client'', ''Client'')]"
  have none: "determine_category (config sample_pipeline) ''/docs/unsorted'' = None"
    by (simp add: sample_pipeline_def cat_unsorted)
  have skipped: "process_file sample_lib sample_pipeline sample_world ''/docs/unsorted/memo.pdf''
       ''/docs/unsorted'' = (''skipped'', sample_pipeline, sample_world)"
    using determine_category_first_match
      [of "config sample_pipeline" "''/docs/unsorted''" sample_pipeline sample_lib sample_world
          "''/docs/unsorted/memo.pdf''"] none
    by blast
  have folders: "[(''external'', folders_external sample_config),
                  (''internal'', folders_internal sample_config),
                  (''client'', folders_client sample_config)] = ?xs"
    by (simp add: sample_config_def)
  have "determine_category sample_config windows_dir = map_option fst (find ?P ?xs)"
    using determine_category_first_match [of sample_config windows_dir]
    unfolding folders by (rule conjunct1)
  then have some: "map_option fst (find ?P ?xs) = Some ''external''"
    using cat_windows by (simp only:)
  have found: "find ?P ?xs \<noteq> None"
  proof
    assume "find ?P ?xs = None"
    then have "map_option fst (find ?P ?xs) = None"
      by (simp only: option.map)
    with some show False
      by (simp only: option.distinct)
  qed
  from cat_windows cat_slash matches_windows found none skipped show ?thesis
    by (intro conjI)
qed

text \<open>
  C8. A file whose lowercased extension is in the ignore set, or is not in the document
  set, is \<open>skipped\<close>; the pipeline (tracked mapping, category documents) and the world
  (persisted tracker, output files) are returned as they were.
\<close>

theorem skipped_extension_frame:
  assumes "lower (snd (splitext file_path)) \<in> ignore_extensions p \<or>
           lower (snd (splitext file_path)) \<notin> document_extensions p"
  shows "process_file L p w file_path subdir = (''skipped'', p, w)"
  using assms by (auto simp add: process_file_def Let_def)

theorem skipped_extension_frame_witness:
  "lower (snd (splitext ''/docs/external/notes.tmp'')) \<in> ignore_extensions sample_pipeline \<and>
   process_file sample_lib sample_pipeline sample_world ''/docs/external/notes.tmp''
     ''/docs/external'' = (''skipped'', sample_pipeline, sample_world)"
proof -
  have h: "lower (snd (splitext ''/docs/external/notes.tmp'')) \<in> ignore_extensions sample_pipeline"
    by (simp add: ext_tmp sample_pipeline_def)
  then show ?thesis
    using skipped_extension_frame [of "''/docs/external/notes.tmp''" sample_pipeline sample_lib
        sample_world "''/docs/external''"]
    by simp
qed

text \<open>
  C4. When extraction returns a string that is empty or all whitespace, the file leaves
  the pipeline and the world unchanged: no entry is added and the tracker, in memory
  and persisted, is not updated. When the file reaches extraction (its extension is
  not ignored and is a document extension, the tracker says it is due and its directory
  has a category), the outcome is \<open>error\<close> and the file is still due afterwards.
\<close>

theorem empty_extraction_is_error:
  assumes "extract_text L file_path = Inr (Some text)" and "strip text = []"
  shows "snd (process_file L p w file_path subdir) = (p, w) \<and>
         (lower (snd (splitext file_path)) \<notin> ignore_extensions p \<and>
          lower (snd (splitext file_path)) \<in> document_extensions p \<and>
          needs_update w (file_tracker p) file_path \<and>
          determine_category (config p) subdir \<noteq> None \<longrightarrow>
            fst (process_file L p w file_path subdir) = ''error'' \<and>
            needs_update (snd (snd (process_file L p w file_path subdir)))
              (file_tracker (fst (snd (process_file L p w file_path subdir)))) file_path)"
  using assms by (auto simp add: process_file_def Let_def split: option.splits)

theorem empty_extraction_is_error_witness:
  "extract_text sample_lib ''/docs/client/scan.pdf'' = Inr (Some ''  '') \<and> strip ''  '' = [] \<and>
   process_file sample_lib sample_pipeline sample_world ''/docs/client/scan.pdf'' ''/docs/client'' =
     (''error'', sample_pipeline, sample_world) \<and>
   needs_update sample_world (file_tracker sample_pipeline) ''/docs/client/scan.pdf''"
proof -
  have guards:
    "lower (snd (splitext ''/docs/client/scan.pdf'')) \<notin> ignore_extensions sample_pipeline \<and>
     lower (snd (splitext ''/docs/client/scan.pdf'')) \<in> document_extensions sample_pipeline \<and>
     needs_update sample_world (file_tracker sample_pipeline) ''/docs/client/scan.pdf'' \<and>
     determine_category (config sample_pipeline) ''/docs/client'' \<noteq> None"
    by (simp add: ext_scan sample_pipeline_def cat_client needs_update_def sample_world_def)
  show ?thesis
    using empty_extraction_is_error [OF extract_scan strip_blank, of sample_pipeline sample_world
        "''/docs/client''"] guards extract_scan strip_blank
    by (cases "process_file sample_lib sample_pipeline sample_world ''/docs/client/scan.pdf''
        ''/docs/client''") simp
qed

section \<open>Aggregate store\<close>

lemma entry_exists_iff:
  "map_of (roots h) category = Some r \<Longrightarrow>
   entry_exists h category filename = Inr (entries_with_filename r filename \<noteq> [])"
  by (simp add: entry_exists_def entries_with_filename_def list_ex_iff filter_empty_conv)

lemma descendants_append:
  "descendants (elem_append r e) = descendants r @ e # descendants e"
  by (cases r) (simp add: elem_append_def)

lemma fold_elem_set:
  "fold (\<lambda>(key, v) e. elem_set e key v) items (Element tg ats tx tal cs) =
   Element tg (fold (\<lambda>(key, v). AList.update key v) items ats) tx tal cs"
  by (induction items arbitrary: ats) (auto simp add: elem_set_def)

lemma map_of_fold_update:
  "k \<notin> fst ` set items \<Longrightarrow>
   map_of (fold (\<lambda>(key, v). AList.update key v) items ats) k = map_of ats k"
  by (induction items arbitrary: ats) (auto simp add: update_conv')

lemma built_entry_eq:
  "elem_set_text
     (case metadata of
        None \<Rightarrow> elem_set (new_Element ''entry'') ''filename'' filename
      | Some items \<Rightarrow>
          fold (\<lambda>(key, v) e. elem_set e key v) items
            (elem_set (new_Element ''entry'') ''filename'' filename))
     (Some text) = built_entry filename text metadata"
proof -
  have e0: "elem_set (new_Element ''entry'') ''filename'' filename =
            Element ''entry'' [(''filename'', filename)] None None []"
    by (simp add: elem_set_def new_Element_def)
  show ?thesis
    unfolding e0 by (cases metadata) (simp_all add: fold_elem_set elem_set_text_def built_entry_def)
qed

lemma add_entry_new:
  assumes "map_of (roots h) category = Some r" and "entries_with_filename r filename = []"
  shows "add_entry h category filename text metadata =
           (Inr (), h\<lparr>roots := AList.update category
                        (elem_append r (built_entry filename text metadata)) (roots h)\<rparr>)"
  using assms by (simp add: add_entry_def entry_exists_iff Let_def built_entry_eq)

lemma add_entry_old:
  assumes "map_of (roots h) category = Some r" and "entries_with_filename r filename \<noteq> []"
  shows "add_entry h category filename text metadata = (Inr (), h)"
  using assms by (simp add: add_entry_def entry_exists_iff)

lemma entries_with_filename_append:
  "entries_with_filename (elem_append r e) filename =
     entries_with_filename r filename @ entries_with_filename (Element ''x'' [] None None [e]) filename"
  by (simp add: entries_with_filename_def findall_entry_filename_def descendants_append)

lemma entries_built:
  assumes "''filename'' \<notin> fst ` set (case metadata of None \<Rightarrow> [] | Some items \<Rightarrow> items)"
  shows "entries_with_filename (Element ''x'' [] None None [built_entry filename text metadata])
           filename = [built_entry filename text metadata]"
  using assms
  by (simp add: entries_with_filename_def findall_entry_filename_def built_entry_def elem_get_def
      map_of_fold_update)

lemma sample_handler_roots:
  "roots (xml_handler sample_pipeline) =
     [(''external'', new_Element ''Root''), (''internal'', new_Element ''Root''),
      (''client'', new_Element ''Root'')]"
  by (simp add: sample_pipeline_def)

text \<open>
  C7. On a handler whose categories are external, internal and client (every handler
  the constructor builds), \<open>add_entry\<close> raises exactly when the category is not one of
  the three. The error is the \<open>ValueError\<close> naming the category, it is returned to the
  caller, and the handler is returned unchanged.
\<close>

theorem add_entry_invalid_category:
  assumes "map fst (roots h) = [''external'', ''internal'', ''client'']"
  shows "(category \<notin> {''external'', ''internal'', ''client''} \<longrightarrow>
            add_entry h category filename text metadata =
              (Inl (ValueError (''Invalid category: '' @ category)), h)) \<and>
         (category \<in> {''external'', ''internal'', ''client''} \<longrightarrow>
            fst (add_entry h category filename text metadata) = Inr ())"
proof -
  have none: "map_of (roots h) category = None \<longleftrightarrow>
              category \<notin> {''external'', ''internal'', ''client''}"
  proof -
    have "set (map fst (roots h)) = {''external'', ''internal'', ''client''}"
      using assms by simp
    then have "fst ` set (roots h) = {''external'', ''internal'', ''client''}"
      by simp
    then show ?thesis by (simp add: map_of_eq_None_iff)
  qed
  show ?thesis
  proof (intro conjI impI)
    assume "category \<notin> {''external'', ''internal'', ''client''}"
    then show "add_entry h category filename text metadata =
              (Inl (ValueError (''Invalid category: '' @ category)), h)"
      using none by (simp add: add_entry_def)
  next
    assume "category \<in> {''external'', ''internal'', ''client''}"
    then obtain r where "map_of (roots h) category = Some r"
      using none by (cases "map_of (roots h) category") auto
    then show "fst (add_entry h category filename text metadata) = Inr ()"
      by (simp add: add_entry_def entry_exists_def Let_def split: bool.splits)
  qed
qed

theorem add_entry_invalid_category_witness:
  "map fst (roots (xml_handler sample_pipeline)) = [''external'', ''internal'', ''client''] \<and>
   add_entry (xml_handler sample_pipeline) ''archive'' ''a.pdf'' ''text'' None =
     (Inl (ValueError ''Invalid category: archive''), xml_handler sample_pipeline) \<and>
   fst (add_entry (xml_handler sample_pipeline) ''client'' ''a.pdf'' ''text'' None) = Inr ()"
proof -
  have keys: "map fst (roots (xml_handler sample_pipeline)) = [''external'', ''internal'', ''client'']"
    by (simp add: sample_pipeline_def)
  show ?thesis
    using add_entry_invalid_category [OF keys, of "''archive''" "''a.pdf''" "''text''" None]
      add_entry_invalid_category [OF keys, of "''client''" "''a.pdf''" "''text''" None] keys
    by simp
qed

text \<open>
  C1, as amended. Let the category be one of the handler's, let its document hold at
  most one entry with the file name, and let the metadata of the first call have no key
  \<open>filename\<close>. Then both calls return normally, the second changes nothing, and the
  document holds exactly one entry with the file name, whatever the texts of the two
  calls and the metadata of the second.
\<close>

theorem add_entry_twice:
  assumes "map_of (roots h) category = Some r"
    and "length (entries_with_filename r filename) \<le> 1"
    and "''filename'' \<notin> fst ` set (case metadata1 of None \<Rightarrow> [] | Some items \<Rightarrow> items)"
  shows "\<exists>h1 r1. add_entry h category filename text1 metadata1 = (Inr (), h1) \<and>
                 add_entry h1 category filename text2 metadata2 = (Inr (), h1) \<and>
                 map_of (roots h1) category = Some r1 \<and>
                 length (entries_with_filename r1 filename) = 1"
proof (cases "entries_with_filename r filename = []")
  case True
  let ?r1 = "elem_append r (built_entry filename text1 metadata1)"
  let ?h1 = "h\<lparr>roots := AList.update category ?r1 (roots h)\<rparr>"
  have first: "add_entry h category filename text1 metadata1 = (Inr (), ?h1)"
    using add_entry_new [OF assms(1) True] .
  have r1: "map_of (roots ?h1) category = Some ?r1"
    by (simp add: update_conv')
  have one: "entries_with_filename ?r1 filename = [built_entry filename text1 metadata1]"
    using True entries_built [OF assms(3)] by (simp add: entries_with_filename_append)
  then have "entries_with_filename ?r1 filename \<noteq> []" by simp
  then have second: "add_entry ?h1 category filename text2 metadata2 = (Inr (), ?h1)"
    using add_entry_old [OF r1] by blast
  show ?thesis using first second r1 one by (intro exI [of _ ?h1] exI [of _ ?r1]) simp
next
  case False
  then have "add_entry h category filename text1 metadata1 = (Inr (), h)"
    and "add_entry h category filename text2 metadata2 = (Inr (), h)"
    using add_entry_old [OF assms(1)] by blast+
  moreover have "length (entries_with_filename r filename) = 1"
    using False assms(2) by (cases "entries_with_filename r filename") auto
  ultimately show ?thesis using assms(1) by auto
qed

theorem add_entry_twice_witness:
  "add_entry (xml_handler sample_pipeline) ''external'' ''report.pdf'' ''first text''
     (Some [(''processed_date'', ''2024-05-01 10:00:00'')]) =
     (Inr (),
      (xml_handler sample_pipeline)
        \<lparr>roots := [(''external'',
                    Element ''Root'' [] None None [sample_entry ''report.pdf'' ''first text'']),
                   (''internal'', new_Element ''Root''), (''client'', new_Element ''Root'')]\<rparr>) \<and>
   add_entry
     ((xml_handler sample_pipeline)
        \<lparr>roots := [(''external'',
                    Element ''Root'' [] None None [sample_entry ''report.pdf'' ''first text'']),
                   (''internal'', new_Element ''Root''), (''client'', new_Element ''Root'')]\<rparr>)
     ''external'' ''report.pdf'' ''second text'' None =
     (Inr (),
      (xml_handler sample_pipeline)
        \<lparr>roots := [(''external'',
                    Element ''Root'' [] None None [sample_entry ''report.pdf'' ''first text'']),
                   (''internal'', new_Element ''Root''), (''client'', new_Element ''Root'')]\<rparr>) \<and>
   length (entries_with_filename
             (Element ''Root'' [] None None [sample_entry ''report.pdf'' ''first text''])
             ''report.pdf'') = 1"
proof -
  have r: "map_of (roots (xml_handler sample_pipeline)) ''external'' = Some (new_Element ''Root'')"
    by (simp add: sample_handler_roots)
  have n: "length (entries_with_filename (new_Element ''Root'') ''report.pdf'') \<le> 1"
    by (simp add: entries_with_filename_def findall_entry_filename_def new_Element_def)
  have m: "''filename'' \<notin> fst ` set (case Some [(''processed_date'', ''2024-05-01 10:00:00'')] of
             None \<Rightarrow> [] | Some items \<Rightarrow> items)"
    by simp
  have first:
    "add_entry (xml_handler sample_pipeline) ''external'' ''report.pdf'' ''first text''
       (Some [(''processed_date'', ''2024-05-01 10:00:00'')]) =
     (Inr (),
      (xml_handler sample_pipeline)
        \<lparr>roots := [(''external'',
                    Element ''Root'' [] None None [sample_entry ''report.pdf'' ''first text'']),
                   (''internal'', new_Element ''Root''), (''client'', new_Element ''Root'')]\<rparr>)"
    by (simp add: add_entry_def entry_exists_def findall_entry_filename_def sample_handler_roots
        new_Element_def elem_set_def elem_set_text_def elem_append_def sample_entry_def)
  show ?thesis
    using add_entry_twice [OF r n m, of "''first text''" "''second text''" None] first
    by (auto simp add: update_conv')
qed

text \<open>
  The claim as stated fails in two ways. A document loaded with two entries of one file
  name keeps both: the calls change nothing. And \<open>add_entry\<close> sets the metadata after the
  \<open>filename\<close> attribute, so a metadata key \<open>filename\<close> replaces the name the entry is
  stored under: the second call finds no entry of its file name and appends another.
\<close>

theorem add_entry_twice_counterexample:
  "add_entry
     ((xml_handler sample_pipeline)
        \<lparr>roots := [(''external'',
                    Element ''Root'' [] None None
                      [sample_entry ''a.pdf'' ''one'', sample_entry ''a.pdf'' ''two'']),
                   (''internal'', new_Element ''Root''), (''client'', new_Element ''Root'')]\<rparr>)
     ''external'' ''a.pdf'' ''three'' None =
     (Inr (),
      (xml_handler sample_pipeline)
        \<lparr>roots := [(''external'',
                    Element ''Root'' [] None None
                      [sample_entry ''a.pdf'' ''one'', sample_entry ''a.pdf'' ''two'']),
                   (''internal'', new_Element ''Root''), (''client'', new_Element ''Root'')]\<rparr>) \<and>
   length (entries_with_filename
             (Element ''Root'' [] None None
                [sample_entry ''a.pdf'' ''one'', sample_entry ''a.pdf'' ''two''])
             ''a.pdf'') = 2 \<and>
   add_entry (xml_handler sample_pipeline) ''external'' ''a.pdf'' ''one''
     (Some [(''filename'', ''b.pdf'')]) =
     (Inr (),
      (xml_handler sample_pipeline)
        \<lparr>roots := [(''external'',
                    Element ''Root'' [] None None
                      [Element ''entry'' [(''filename'', ''b.pdf'')] (Some ''one'') None []]),
                   (''internal'', new_Element ''Root''), (''client'', new_Element ''Root'')]\<rparr>) \<and>
   add_entry
     ((xml_handler sample_pipeline)
        \<lparr>roots := [(''external'',
                    Element ''Root'' [] None None
                      [Element ''entry'' [(''filename'', ''b.pdf'')] (Some ''one'') None []]),
                   (''internal'', new_Element ''Root''), (''client'', new_Element ''Root'')]\<rparr>)
     ''external'' ''a.pdf'' ''two'' (Some [(''filename'', ''b.pdf'')]) =
     (Inr (),
      (xml_handler sample_pipeline)
        \<lparr>roots := [(''external'',
                    Element ''Root'' [] None None
                      [Element ''entry'' [(''filename'', ''b.pdf'')] (Some ''one'') None [],
                       Element ''entry'' [(''filename'', ''b.pdf'')] (Some ''two'') None []]),
                   (''internal'', new_Element ''Root''), (''client'', new_Element ''Root'')]\<rparr>) \<and>
   entries_with_filename
     (Element ''Root'' [] None None
        [Element ''entry'' [(''filename'', ''b.pdf'')] (Some ''one'') None [],
         Element ''entry'' [(''filename'', ''b.pdf'')] (Some ''two'') None []])
     ''a.pdf'' = []"
  by (simp add: add_entry_def entry_exists_def findall_entry_filename_def entries_with_filename_def
      elem_get_def new_Element_def elem_set_def elem_set_text_def elem_append_def sample_entry_def
      sample_handler_roots)

section \<open>Runs over an existing output file\<close>

































section \<open>Saving and loading again\<close>


















end
